theory Spec2Isabelle
  imports Complex_Main "HOL-Library.Sublist"
begin

section \<open>Data model of the compression queue\<close>

text \<open>
  The queue of \<^verbatim>\<open>App\<close> holds items
  \<^verbatim>\<open>{id, file, name, status, progress, outputUrl, error}\<close>.
  The five status strings the program writes are an enumeration.
\<close>

datatype Status = Queued | Processing | Done | Error | Skipped

datatype File = File (fname: string) (fdata: "nat list")

record Item =
  id_j :: string
  file_j :: File
  name :: string
  status :: Status
  progress :: int
  outputUrl :: "string option"
  error :: "string option"

text \<open>
  A patch is an object holding some of the item's keys. A key that is present carries its
  new value, which for \<^verbatim>\<open>outputUrl\<close> and \<^verbatim>\<open>error\<close> may be \<^verbatim>\<open>null\<close>.
\<close>

record Patch =
  p_id :: "string option"
  p_file :: "File option"
  p_name :: "string option"
  p_status :: "Status option"
  p_progress :: "int option"
  p_outputUrl :: "string option option"
  p_error :: "string option option"

definition noPatch :: Patch where
  "noPatch = \<lparr> p_id = None, p_file = None, p_name = None, p_status = None,
               p_progress = None, p_outputUrl = None, p_error = None \<rparr>"

text \<open>The object spread \<^verbatim>\<open>{ ...it, ...patch }\<close>: the keys of the patch win.\<close>

definition spread :: "Item \<Rightarrow> Patch \<Rightarrow> Item" where
  "spread it patch =
     \<lparr> id_j = (case p_id patch of None \<Rightarrow> id_j it | Some v \<Rightarrow> v),
       file_j = (case p_file patch of None \<Rightarrow> file_j it | Some v \<Rightarrow> v),
       name = (case p_name patch of None \<Rightarrow> name it | Some v \<Rightarrow> v),
       status = (case p_status patch of None \<Rightarrow> status it | Some v \<Rightarrow> v),
       progress = (case p_progress patch of None \<Rightarrow> progress it | Some v \<Rightarrow> v),
       outputUrl = (case p_outputUrl patch of None \<Rightarrow> outputUrl it | Some v \<Rightarrow> v),
       error = (case p_error patch of None \<Rightarrow> error it | Some v \<Rightarrow> v) \<rparr>"

section \<open>Queue store operations\<close>

text \<open>
  \<^verbatim>\<open>setQueue(prev => prev.map(it => it.id === id ? { ...it, ...patch } : it))\<close>
\<close>

definition updateItem :: "string \<Rightarrow> Patch \<Rightarrow> Item list \<Rightarrow> Item list" where
  "updateItem i patch prev = map (\<lambda>it. if id_j it = i then spread it patch else it) prev"

text \<open>
  \<^verbatim>\<open>setQueue(prev => prev.filter(it => it.status !== 'done' && it.status !== 'error'))\<close>
\<close>

definition clearFinished :: "Item list \<Rightarrow> Item list" where
  "clearFinished prev = filter (\<lambda>it. status it \<noteq> Done \<and> status it \<noteq> Error) prev"

text \<open>\<^verbatim>\<open>updateItem(id, { status: 'skipped' })\<close>\<close>

definition cancelItem :: "string \<Rightarrow> Item list \<Rightarrow> Item list" where
  "cancelItem i prev = updateItem i (noPatch\<lparr> p_status := Some Skipped \<rparr>) prev"

section \<open>Submission\<close>

text \<open>\<^verbatim>\<open>String(n)\<close> and template interpolation of a non-negative integer.\<close>

fun show_nat :: "nat \<Rightarrow> string" where
  "show_nat n =
     (if n < 10 then [char_of (48 + n)]
      else show_nat (n div 10) @ [char_of (48 + n mod 10)])"

declare show_nat.simps [simp del]

text \<open>
  The component state: the queue, the run flag, the three settings, the id counter, the
  engine handle and its ready flag. \<^verbatim>\<open>listeners\<close> is the engine's list of progress
  callbacks, each represented by the \<^verbatim>\<open>item.id\<close> its closure captured, in the order
  \<^verbatim>\<open>ffmpeg.on('progress', ...)\<close> registered them.
\<close>

record AppState =
  queue :: "Item list"
  running :: bool
  ready :: bool
  ffmpeg :: bool
  crf :: nat
  preset :: string
  sizePreset :: string
  idCounter :: nat
  listeners :: "string list"

text \<open>
  The state at mount: \<^verbatim>\<open>useState([])\<close>, \<^verbatim>\<open>useState(false)\<close>, \<^verbatim>\<open>useState(24)\<close>,
  \<^verbatim>\<open>useState('medium')\<close>, \<^verbatim>\<open>useState('720p')\<close>, \<^verbatim>\<open>useRef(0)\<close>, and in
  \<^verbatim>\<open>useFFmpeg\<close> \<^verbatim>\<open>useRef(null)\<close> and \<^verbatim>\<open>useState(false)\<close>.
\<close>

definition initialState :: AppState where
  "initialState =
     \<lparr> queue = [], running = False, ready = False, ffmpeg = False, crf = 24,
       preset = ''medium'', sizePreset = ''720p'', idCounter = 0, listeners = [] \<rparr>"

text \<open>The end of a successful \<^verbatim>\<open>load\<close>: \<^verbatim>\<open>ffmpegRef.current = ffmpeg; setReady(true)\<close>.\<close>

definition engineLoaded :: "AppState \<Rightarrow> AppState" where
  "engineLoaded st = st\<lparr> ffmpeg := True, ready := True \<rparr>"

text \<open>The Start and Pause buttons: \<^verbatim>\<open>setRunning(true)\<close>, \<^verbatim>\<open>setRunning(false)\<close>.\<close>

definition setRunning :: "bool \<Rightarrow> AppState \<Rightarrow> AppState" where
  "setRunning b st = st\<lparr> running := b \<rparr>"

text \<open>
  \<^verbatim>\<open>addFiles\<close>: each file, paired here with the value \<^verbatim>\<open>Date.now()\<close> returned for it,
  becomes a queued item with id \<^verbatim>\<open>`${Date.now()}-${idCounter.current++}`\<close>; the new items
  are appended to the queue.
\<close>

fun mkItems :: "nat \<Rightarrow> (nat \<times> File) list \<Rightarrow> Item list" where
  "mkItems c [] = []"
| "mkItems c ((now, f) # fs) =
     \<lparr> id_j = show_nat now @ ''-'' @ show_nat c, file_j = f, name = fname f,
       status = Queued, progress = 0, outputUrl = None, error = None \<rparr>
     # mkItems (Suc c) fs"

definition addFiles :: "(nat \<times> File) list \<Rightarrow> AppState \<Rightarrow> AppState" where
  "addFiles files st =
     st\<lparr> queue := queue st @ mkItems (idCounter st) files,
         idCounter := idCounter st + length files \<rparr>"

section \<open>Settings\<close>

definition presets :: "(string \<times> nat option) list" where
  "presets = [(''1080p'', Some 1920), (''720p'', Some 1280), (''480p'', Some 854),
              (''original'', None)]"

text \<open>\<^verbatim>\<open>presets.find(p => p.id === sizePreset)?.scale ?? null\<close>\<close>

definition selectedScale :: "AppState \<Rightarrow> nat option" where
  "selectedScale st = (case map_of presets (sizePreset st) of None \<Rightarrow> None | Some sc \<Rightarrow> sc)"

definition vfArgs :: "nat option \<Rightarrow> string list" where
  "vfArgs sc =
     (case sc of
        None \<Rightarrow> []
      | Some n \<Rightarrow>
          if n = 0 then []
          else [''-vf'', ''scale='' @ [CHR 0x27] @ ''min('' @ show_nat n @ '',iw)'' @ [CHR 0x27]
                         @ '':-2''])"

definition engineArgs :: "AppState \<Rightarrow> string \<Rightarrow> string \<Rightarrow> string list" where
  "engineArgs st inputName outputName =
     [''-i'', inputName] @ vfArgs (selectedScale st) @
     [''-c:v'', ''libx264'', ''-crf'', show_nat (crf st), ''-preset'', preset st,
      ''-c:a'', ''aac'', ''-b:a'', ''128k'', ''-movflags'', ''+faststart'', outputName]"

section \<open>The driver\<close>

text \<open>\<^verbatim>\<open>Array.prototype.findIndex\<close>: the first index that satisfies the predicate, or -1.\<close>

fun findIndex :: "('a \<Rightarrow> bool) \<Rightarrow> 'a list \<Rightarrow> int" where
  "findIndex P [] = -1"
| "findIndex P (x # xs) =
     (if P x then 0 else (let r = findIndex P xs in if r = -1 then -1 else r + 1))"

text \<open>
  The head of \<^verbatim>\<open>processNext\<close> up to the selection of \<^verbatim>\<open>item\<close>: the two early returns
  on the engine and on the run flag, the search for the first queued item, and the early
  return when there is none. \<^verbatim>\<open>None\<close> stands for \<^verbatim>\<open>return\<close>.
\<close>

definition processNext_select :: "AppState \<Rightarrow> Item option" where
  "processNext_select st =
     (if \<not> ready st \<or> \<not> ffmpeg st then None
      else if \<not> running st then None
      else (let nextIndex = findIndex (\<lambda>item. status item = Queued) (queue st)
            in if nextIndex = -1 then None else Some (queue st ! nat nextIndex)))"

text \<open>\<^verbatim>\<open>updateItem(item.id, { status: 'processing', progress: 0, error: null })\<close>\<close>

definition markProcessing :: "Item \<Rightarrow> AppState \<Rightarrow> AppState" where
  "markProcessing item st =
     st\<lparr> queue := updateItem (id_j item)
            (noPatch\<lparr> p_status := Some Processing, p_progress := Some 0, p_error := Some None \<rparr>)
            (queue st) \<rparr>"


text \<open>
  \<^verbatim>\<open>Math.round\<close> rounds to the nearest integer, halves upwards. The fraction of a progress
  event is modelled as an exact rational; \<^verbatim>\<open>None\<close> is a payload that is
  \<^verbatim>\<open>undefined\<close> or \<^verbatim>\<open>NaN\<close>, which \<^verbatim>\<open>progress || 0\<close> turns into 0 (as it does 0 itself).
\<close>

definition Math_round :: "rat \<Rightarrow> int" where
  "Math_round x = \<lfloor>x + 1 / 2\<rfloor>"

definition orZero :: "rat option \<Rightarrow> rat" where
  "orZero p = (case p of None \<Rightarrow> 0 | Some x \<Rightarrow> if x = 0 then 0 else x)"

text \<open>
  The callback of line 93,
  \<^verbatim>\<open>({ progress }) => updateItem(item.id, { progress: Math.round((progress || 0) * 100) })\<close>,
  for the closure that captured the item with id \<open>i\<close>.
\<close>

definition progressHandler :: "string \<Rightarrow> rat option \<Rightarrow> Item list \<Rightarrow> Item list" where
  "progressHandler i p prev =
     updateItem i (noPatch\<lparr> p_progress := Some (Math_round (orZero p * 100)) \<rparr>) prev"

text \<open>\<^verbatim>\<open>ffmpeg.on('progress', ...)\<close>: the callback is added; nothing in the program removes one.\<close>

definition subscribe :: "Item \<Rightarrow> AppState \<Rightarrow> AppState" where
  "subscribe item st = st\<lparr> listeners := listeners st @ [id_j item] \<rparr>"

text \<open>The engine emits a progress event: every registered callback runs, in order.\<close>

definition emitProgress :: "rat option \<Rightarrow> AppState \<Rightarrow> AppState" where
  "emitProgress p st =
     st\<lparr> queue := fold (\<lambda>i q. progressHandler i p q) (listeners st) (queue st) \<rparr>"

text \<open>\<^verbatim>\<open>updateItem(item.id, { status: 'done', progress: 100, outputUrl: url })\<close>\<close>

definition markDone :: "Item \<Rightarrow> string \<Rightarrow> AppState \<Rightarrow> AppState" where
  "markDone item url st =
     st\<lparr> queue := updateItem (id_j item)
            (noPatch\<lparr> p_status := Some Done, p_progress := Some 100, p_outputUrl := Some (Some url) \<rparr>)
            (queue st) \<rparr>"

text \<open>
  A thrown value with its \<^verbatim>\<open>message\<close> property, if it has one, and its \<^verbatim>\<open>String(err)\<close>.
  \<^verbatim>\<open>err?.message || String(err)\<close> takes the message unless it is missing or empty.
\<close>

datatype JsError = JsError (message: "string option") (toStr: string)

definition errorText :: "JsError \<Rightarrow> string" where
  "errorText err =
     (case message err of None \<Rightarrow> toStr err | Some m \<Rightarrow> if m = [] then toStr err else m)"

text \<open>\<^verbatim>\<open>updateItem(item.id, { status: 'error', error: err?.message || String(err) })\<close>\<close>

definition markError :: "Item \<Rightarrow> JsError \<Rightarrow> AppState \<Rightarrow> AppState" where
  "markError item err st =
     st\<lparr> queue := updateItem (id_j item)
            (noPatch\<lparr> p_status := Some Error, p_error := Some (Some (errorText err)) \<rparr>)
            (queue st) \<rparr>"

text \<open>The Skip button: \<^verbatim>\<open>cancelItem(item.id)\<close> on the queue of the state.\<close>

definition skip :: "string \<Rightarrow> AppState \<Rightarrow> AppState" where
  "skip i st = st\<lparr> queue := cancelItem i (queue st) \<rparr>"



section \<open>One execution of a job\<close>

text \<open>
  What the outside world answers during one call of \<^verbatim>\<open>processNext\<close>: whether
  \<^verbatim>\<open>item.file.arrayBuffer()\<close>, \<^verbatim>\<open>ffmpeg.writeFile\<close>, \<^verbatim>\<open>ffmpeg.exec\<close> and the two
  \<^verbatim>\<open>ffmpeg.deleteFile\<close> calls throw, the progress events emitted while \<^verbatim>\<open>exec\<close> runs,
  and what \<^verbatim>\<open>ffmpeg.readFile\<close> gives: an error, or data for which
  \<^verbatim>\<open>URL.createObjectURL\<close> returns the given URL.
\<close>

record Engine =
  arrayBuffer_err :: "JsError option"
  writeFile_err :: "JsError option"
  exec_events :: "rat option list"
  exec_err :: "JsError option"
  readFile_res :: "JsError + string"
  deleteIn_err :: "JsError option"
  deleteOut_err :: "JsError option"

datatype EngineCall =
    WriteFile string "nat list"
  | OnProgress string
  | Exec "string list"
  | ReadFile string
  | DeleteFile string

definition inputName :: "Item \<Rightarrow> string" where
  "inputName item = ''in_'' @ id_j item"

definition outputName :: "Item \<Rightarrow> string" where
  "outputName item = ''out_'' @ id_j item @ ''.mp4''"

text \<open>
  The \<^verbatim>\<open>try\<close> block of \<^verbatim>\<open>processNext\<close> for the selected item, run without any other
  queue update in between. The result is the value thrown out of the block, if any, the
  state, and the engine calls made, in order. The two \<^verbatim>\<open>deleteFile\<close> calls sit in
  \<^verbatim>\<open>try { ... } catch {}\<close> of their own, so what they throw goes nowhere.
\<close>

definition processNext_try ::
    "Item \<Rightarrow> Engine \<Rightarrow> AppState \<Rightarrow> JsError option \<times> AppState \<times> EngineCall list" where
  "processNext_try item eng st =
     (let st1 = markProcessing item st in
      case arrayBuffer_err eng of
        Some e \<Rightarrow> (Some e, st1, [])
      | None \<Rightarrow>
     (let tr1 = [WriteFile (inputName item) (fdata (file_j item))] in
      case writeFile_err eng of
        Some e \<Rightarrow> (Some e, st1, tr1)
      | None \<Rightarrow>
     (let st2 = subscribe item st1;
          tr2 = tr1 @ [OnProgress (id_j item),
                       Exec (engineArgs st (inputName item) (outputName item))];
          st3 = fold emitProgress (exec_events eng) st2 in
      case exec_err eng of
        Some e \<Rightarrow> (Some e, st3, tr2)
      | None \<Rightarrow>
     (let tr3 = tr2 @ [ReadFile (outputName item)] in
      case readFile_res eng of
        Inl e \<Rightarrow> (Some e, st3, tr3)
      | Inr url \<Rightarrow>
          (None, markDone item url st3,
           tr3 @ [DeleteFile (inputName item), DeleteFile (outputName item)])))))"

text \<open>The whole of \<^verbatim>\<open>processNext\<close>: selection, the \<^verbatim>\<open>try\<close> block, and the \<^verbatim>\<open>catch\<close>.\<close>

definition processNext :: "Engine \<Rightarrow> AppState \<Rightarrow> AppState \<times> EngineCall list" where
  "processNext eng st =
     (case processNext_select st of
        None \<Rightarrow> (st, [])
      | Some item \<Rightarrow>
          (case processNext_try item eng st of
             (None, st', tr) \<Rightarrow> (st', tr)
           | (Some err, st', tr) \<Rightarrow> (markError item err st', tr)))"

section \<open>The download link\<close>

text \<open>
  \<^verbatim>\<open>item.name.replace(/\.[^.]+$/, '')\<close>. The pattern matches at a position when a dot
  stands there, at least one character follows, and no dot follows up to the end of the
  string. \<^verbatim>\<open>replace\<close> tries the positions from the left and removes the first match,
  which reaches to the end of the string.
\<close>

definition matchesExt :: "string \<Rightarrow> bool" where
  "matchesExt s =
     (case s of [] \<Rightarrow> False
      | c # cs \<Rightarrow> c = CHR ''.'' \<and> cs \<noteq> [] \<and> list_all (\<lambda>d. d \<noteq> CHR ''.'') cs)"

fun replaceExt :: "string \<Rightarrow> string" where
  "replaceExt [] = []"
| "replaceExt (c # cs) = (if matchesExt (c # cs) then [] else c # replaceExt cs)"

definition downloadName :: "Item \<Rightarrow> string" where
  "downloadName item = replaceExt (name item) @ ''-compressed.mp4''"

text \<open>\<^verbatim>\<open>item.outputUrl && <a href={item.outputUrl} download={...}>\<close>\<close>

definition downloadLink :: "Item \<Rightarrow> (string \<times> string) option" where
  "downloadLink item =
     (case outputUrl item of
        None \<Rightarrow> None
      | Some u \<Rightarrow> if u = [] then None else Some (u, downloadName item))"

section \<open>Scenarios\<close>

text \<open>
  Inputs for the concrete runs below, each built with the operations above from the state
  at mount. One file, or two files, are added, the engine has loaded and Start was pressed.
\<close>

abbreviation oneFile :: AppState where
  "oneFile \<equiv>
     setRunning True (engineLoaded (addFiles [(1, File ''a.mov'' [1, 2])] initialState))"



abbreviation engineExecFails :: Engine where
  "engineExecFails \<equiv>
     \<lparr> arrayBuffer_err = None, writeFile_err = None, exec_events = [Some (1 / 2)],
       exec_err = Some (JsError (Some ''exec failed'') ''Error: exec failed''),
       readFile_res = Inr ''blob:1'', deleteIn_err = None, deleteOut_err = None \<rparr>"

abbreviation engineDeleteFails :: Engine where
  "engineDeleteFails \<equiv>
     \<lparr> arrayBuffer_err = None, writeFile_err = None, exec_events = [Some (1 / 2)],
       exec_err = None, readFile_res = Inr ''blob:1'',
       deleteIn_err = Some (JsError (Some ''no such file'') ''Error: no such file''),
       deleteOut_err = Some (JsError None ''ErrnoError'') \<rparr>"





section \<open>Properties of the queue store\<close>

lemma length_updateItem: "length (updateItem i patch q) = length q"
  by (simp add: updateItem_def)

lemma nth_updateItem:
  "k < length q \<Longrightarrow>
   updateItem i patch q ! k = (if id_j (q ! k) = i then spread (q ! k) patch else q ! k)"
  by (simp add: updateItem_def)

lemma updateItem_absent: "\<forall>it \<in> set q. id_j it \<noteq> i \<Longrightarrow> updateItem i patch q = q"
  unfolding updateItem_def by (induction q) simp_all

lemma spread_fields:
  "id_j (spread it patch) = (case p_id patch of None \<Rightarrow> id_j it | Some v \<Rightarrow> v)"
  "file_j (spread it patch) = (case p_file patch of None \<Rightarrow> file_j it | Some v \<Rightarrow> v)"
  "name (spread it patch) = (case p_name patch of None \<Rightarrow> name it | Some v \<Rightarrow> v)"
  "status (spread it patch) = (case p_status patch of None \<Rightarrow> status it | Some v \<Rightarrow> v)"
  "progress (spread it patch) = (case p_progress patch of None \<Rightarrow> progress it | Some v \<Rightarrow> v)"
  "outputUrl (spread it patch) = (case p_outputUrl patch of None \<Rightarrow> outputUrl it | Some v \<Rightarrow> v)"
  "error (spread it patch) = (case p_error patch of None \<Rightarrow> error it | Some v \<Rightarrow> v)"
  by (simp_all add: spread_def)

text \<open>
  Claim C8. For every id and patch, \<^verbatim>\<open>updateItem\<close> keeps the length of the queue, leaves
  every item with another id as it is and in its place, gives every item with that id the
  patch's value for each key the patch holds and the old value for every other key, and
  returns the queue unchanged when no item has the id. The function is total: no input
  makes it fail.
\<close>

theorem updateItem_merges_and_frames:
  "length (updateItem i patch q) = length q
   \<and> (\<forall>k < length q. id_j (q ! k) \<noteq> i \<longrightarrow> updateItem i patch q ! k = q ! k)
   \<and> (\<forall>k < length q. id_j (q ! k) = i \<longrightarrow>
        (let old = q ! k; new = updateItem i patch q ! k in
           id_j new = (case p_id patch of None \<Rightarrow> id_j old | Some v \<Rightarrow> v)
         \<and> file_j new = (case p_file patch of None \<Rightarrow> file_j old | Some v \<Rightarrow> v)
         \<and> name new = (case p_name patch of None \<Rightarrow> name old | Some v \<Rightarrow> v)
         \<and> status new = (case p_status patch of None \<Rightarrow> status old | Some v \<Rightarrow> v)
         \<and> progress new = (case p_progress patch of None \<Rightarrow> progress old | Some v \<Rightarrow> v)
         \<and> outputUrl new = (case p_outputUrl patch of None \<Rightarrow> outputUrl old | Some v \<Rightarrow> v)
         \<and> error new = (case p_error patch of None \<Rightarrow> error old | Some v \<Rightarrow> v)))
   \<and> ((\<forall>it \<in> set q. id_j it \<noteq> i) \<longrightarrow> updateItem i patch q = q)"
proof (intro conjI allI impI)
  show "length (updateItem i patch q) = length q" by (rule length_updateItem)
next
  fix k assume "k < length q" "id_j (q ! k) \<noteq> i"
  then show "updateItem i patch q ! k = q ! k" by (simp add: nth_updateItem)
next
  fix k assume "k < length q" "id_j (q ! k) = i"
  then have "updateItem i patch q ! k = spread (q ! k) patch" by (simp add: nth_updateItem)
  then show "let old = q ! k; new = updateItem i patch q ! k in
           id_j new = (case p_id patch of None \<Rightarrow> id_j old | Some v \<Rightarrow> v)
         \<and> file_j new = (case p_file patch of None \<Rightarrow> file_j old | Some v \<Rightarrow> v)
         \<and> name new = (case p_name patch of None \<Rightarrow> name old | Some v \<Rightarrow> v)
         \<and> status new = (case p_status patch of None \<Rightarrow> status old | Some v \<Rightarrow> v)
         \<and> progress new = (case p_progress patch of None \<Rightarrow> progress old | Some v \<Rightarrow> v)
         \<and> outputUrl new = (case p_outputUrl patch of None \<Rightarrow> outputUrl old | Some v \<Rightarrow> v)
         \<and> error new = (case p_error patch of None \<Rightarrow> error old | Some v \<Rightarrow> v)"
    by (simp add: Let_def spread_fields)
next
  assume "\<forall>it \<in> set q. id_j it \<noteq> i"
  then show "updateItem i patch q = q" by (rule updateItem_absent)
qed

theorem updateItem_merges_and_frames_witness:
  "(let q = queue (addFiles [(1, File ''a.mov'' []), (2, File ''b.mp4'' [])] initialState);
        q' = updateItem ''2-1'' (noPatch\<lparr> p_progress := Some 40 \<rparr>) q
    in map id_j q = [''1-0'', ''2-1''] \<and> length q' = 2 \<and> q' ! 0 = q ! 0
       \<and> progress (q' ! 1) = 40 \<and> status (q' ! 1) = Queued \<and> name (q' ! 1) = ''b.mp4''
       \<and> updateItem ''9-9'' (noPatch\<lparr> p_progress := Some 40 \<rparr>) q = q)"
proof -
  define q where "q = queue (addFiles [(1, File ''a.mov'' []), (2, File ''b.mp4'' [])] initialState)"
  define p where "p = noPatch\<lparr> p_progress := Some 40 \<rparr>"
  have ids: "map id_j q = [''1-0'', ''2-1'']" unfolding q_def by code_simp
  have len: "length q = 2" unfolding q_def by code_simp
  have k0: "(0::nat) < length q" and k1: "(1::nat) < length q" using len by simp_all
  have i0: "id_j (q ! 0) \<noteq> ''2-1''" and i1: "id_j (q ! 1) = ''2-1''"
    unfolding q_def by code_simp+
  have s1: "status (q ! 1) = Queued" "name (q ! 1) = ''b.mp4''" unfolding q_def by code_simp+
  have pp: "p_progress p = Some 40" "p_status p = None" "p_name p = None"
    by (simp_all add: noPatch_def p_def)
  have absent: "\<forall>it \<in> set q. id_j it \<noteq> ''9-9''" unfolding q_def by code_simp
  note t = updateItem_merges_and_frames [of "''2-1''" p q]
  note u = updateItem_merges_and_frames [of "''9-9''" p q]
  from t have a: "length (updateItem ''2-1'' p q) = 2" using len by simp
  from t k0 i0 have b: "updateItem ''2-1'' p q ! 0 = q ! 0" by blast
  from t k1 i1 have "let old = q ! 1; new = updateItem ''2-1'' p q ! 1 in
       status new = (case p_status p of None \<Rightarrow> status old | Some v \<Rightarrow> v)
     \<and> progress new = (case p_progress p of None \<Rightarrow> progress old | Some v \<Rightarrow> v)
     \<and> name new = (case p_name p of None \<Rightarrow> name old | Some v \<Rightarrow> v)"
    unfolding Let_def by blast
  then have c: "progress (updateItem ''2-1'' p q ! 1) = 40
      \<and> status (updateItem ''2-1'' p q ! 1) = Queued \<and> name (updateItem ''2-1'' p q ! 1) = ''b.mp4''"
    unfolding Let_def pp s1 by simp
  from u absent have d: "updateItem ''9-9'' p q = q" by blast
  show ?thesis unfolding Let_def q_def [symmetric] p_def [symmetric]
    using ids a b c d by blast
qed

lemma count_list_filter:
  "count_list (filter P xs) x = (if P x then count_list xs x else 0)"
  by (induction xs) auto

text \<open>
  Claim C4 as stated fails: a queue holding one item that was skipped is returned as it is,
  the Skipped item still in it.
\<close>

theorem clearFinished_keeps_skipped_counterexample:
  "map status (clearFinished (queue (skip ''1-0'' (addFiles [(1, File ''a.mov'' [])] initialState))))
     = [Skipped]"
  by code_simp

text \<open>
  Claim C4, as amended. \<^verbatim>\<open>clearFinished\<close> removes exactly the items whose status is
  Done or Error: such an item no longer occurs, and every other item, a Skipped one
  included, occurs as often as before. The result is a subsequence of the queue, so the
  items that stay keep their relative order.
\<close>

theorem clearFinished_removes_done_error:
  "subseq (clearFinished q) q
   \<and> count_list (clearFinished q) it
       = (if status it = Done \<or> status it = Error then 0 else count_list q it)"
  by (simp add: clearFinished_def count_list_filter)

lemma matchesExt_Cons:
  "matchesExt (c # cs) = (c = CHR ''.'' \<and> cs \<noteq> [] \<and> CHR ''.'' \<notin> set cs)"
  by (auto simp: matchesExt_def list_all_iff)


lemma replaceExt_ext:
  "ext \<noteq> [] \<Longrightarrow> CHR ''.'' \<notin> set ext \<Longrightarrow> replaceExt (base @ CHR ''.'' # ext) = base"
  by (induction base) (auto simp: matchesExt_Cons)


text \<open>
  Claim C9. When the display name is a stem, a dot and a non-empty extension without a
  dot, the download name is the stem followed by \<^verbatim>\<open>-compressed.mp4\<close>, and an item with
  a non-empty output URL is offered a link with that URL and that download name. The
  witness is \<^verbatim>\<open>clip.mov\<close>, which yields \<^verbatim>\<open>clip-compressed.mp4\<close>.
\<close>

theorem downloadName_strips_extension:
  assumes "name item = base @ ''.'' @ ext" and "ext \<noteq> []" and "CHR ''.'' \<notin> set ext"
  shows "downloadName item = base @ ''-compressed.mp4''
         \<and> (outputUrl item = Some url \<and> url \<noteq> [] \<longrightarrow>
              downloadLink item = Some (url, base @ ''-compressed.mp4''))"
proof -
  have "replaceExt (name item) = base"
    using assms replaceExt_ext [of ext base] by simp
  then have "downloadName item = base @ ''-compressed.mp4''"
    by (simp add: downloadName_def)
  then show ?thesis by (simp add: downloadLink_def)
qed



theorem downloadName_strips_extension_witness:
  "(let st = setRunning True (engineLoaded (addFiles [(1, File ''clip.mov'' [])] initialState));
        eng = \<lparr> arrayBuffer_err = None, writeFile_err = None,
                exec_events = [Some (1 / 4), Some 1], exec_err = None,
                readFile_res = Inr ''blob:1'', deleteIn_err = None, deleteOut_err = None \<rparr>;
        item = queue (fst (processNext eng st)) ! 0
    in name item = ''clip'' @ ''.'' @ ''mov'' \<and> ''mov'' \<noteq> [] \<and> CHR ''.'' \<notin> set ''mov''
       \<and> status item = Done \<and> outputUrl item = Some ''blob:1''
       \<and> downloadName item = ''clip-compressed.mp4''
       \<and> downloadLink item = Some (''blob:1'', ''clip-compressed.mp4''))"
proof -
  define item where "item =
    queue (fst (processNext
      \<lparr> arrayBuffer_err = None, writeFile_err = None,
        exec_events = [Some (1 / 4), Some 1], exec_err = None,
        readFile_res = Inr ''blob:1'', deleteIn_err = None, deleteOut_err = None \<rparr>
      (setRunning True (engineLoaded (addFiles [(1, File ''clip.mov'' [])] initialState))))) ! 0"
  have n: "name item = ''clip'' @ ''.'' @ ''mov''" unfolding item_def by code_simp
  have s: "status item = Done" unfolding item_def by code_simp
  have u: "outputUrl item = Some ''blob:1''" unfolding item_def by code_simp
  have e: "''mov'' \<noteq> []" and d: "CHR ''.'' \<notin> set ''mov''" by simp_all
  have u': "outputUrl item = Some ''blob:1'' \<and> ''blob:1'' \<noteq> []" using u by simp
  from downloadName_strips_extension [OF n e d, of "''blob:1''"] u'
  have "downloadName item = ''clip-compressed.mp4''
        \<and> downloadLink item = Some (''blob:1'', ''clip-compressed.mp4'')"
    by simp
  then show ?thesis
    unfolding Let_def item_def [symmetric] using n s u e d by blast
qed


























lemma map_id_updateItem:
  "p_id patch = None \<Longrightarrow> map id_j (updateItem i patch q) = map id_j q"
  by (simp add: updateItem_def spread_fields)


lemma length_fold_progressHandler:
  "length (fold (\<lambda>i q. progressHandler i p q) ls q) = length q"
  by (induction ls arbitrary: q) (simp_all add: progressHandler_def length_updateItem)











text \<open>
  Claim C5, evaluated on the code. When \<^verbatim>\<open>ffmpeg.exec\<close> throws, the item ends in Error
  with the thrown message, the input file has been written, and the call makes three
  engine calls in all, none of them a \<^verbatim>\<open>deleteFile\<close>: the cleanup sits inside the
  \<^verbatim>\<open>try\<close> block behind the completion update and is not reached. On the successful
  path both handles are deleted, and when both deletions throw the item is Done with no
  error all the same.
\<close>

theorem processNext_no_cleanup_after_failure:
  "map status (queue (fst (processNext engineExecFails oneFile))) = [Error]
   \<and> map error (queue (fst (processNext engineExecFails oneFile))) = [Some ''exec failed'']
   \<and> WriteFile ''in_1-0'' [1, 2] \<in> set (snd (processNext engineExecFails oneFile))
   \<and> DeleteFile ''in_1-0'' \<notin> set (snd (processNext engineExecFails oneFile))
   \<and> DeleteFile ''out_1-0.mp4'' \<notin> set (snd (processNext engineExecFails oneFile))
   \<and> length (snd (processNext engineExecFails oneFile)) = 3
   \<and> map status (queue (fst (processNext engineDeleteFails oneFile))) = [Done]
   \<and> map error (queue (fst (processNext engineDeleteFails oneFile))) = [None]
   \<and> drop 4 (snd (processNext engineDeleteFails oneFile))
        = [DeleteFile ''in_1-0'', DeleteFile ''out_1-0.mp4'']"
  by code_simp

end
